theory Spec2Isabelle
  imports Complex_Main "HOL-Library.Word"
begin

section \<open>ferrocp.h: the C interface\<close>

text \<open>
  The C header declares types and functions; the functions have no body in the repository.
  Machine integers are words of the declared width. The header and the wrapper only
  compare and copy them, so signedness never matters: \<open>int\<close> and \<open>unsigned int\<close> are both
  32-bit words. A \<open>double\<close> is only copied or written as the literal \<open>0.0\<close>; it is a
  \<open>real\<close> here. A \<open>const char*\<close> is \<open>None\<close> for the null pointer and \<open>Some s\<close> for a string.
\<close>

type_synonym c_int = "32 word"
type_synonym c_uint = "32 word"
type_synonym uint64_t = "64 word"
type_synonym double = real
type_synonym c_str = "string option"

datatype ferrocp_copy_mode_t = FERROCP_MODE_COPY | FERROCP_MODE_MOVE | FERROCP_MODE_SYNC

fun copy_mode_value :: "ferrocp_copy_mode_t \<Rightarrow> c_int" where
  "copy_mode_value FERROCP_MODE_COPY = 0"
| "copy_mode_value FERROCP_MODE_MOVE = 1"
| "copy_mode_value FERROCP_MODE_SYNC = 2"

datatype ferrocp_device_type_t =
  FERROCP_DEVICE_UNKNOWN | FERROCP_DEVICE_HDD | FERROCP_DEVICE_SSD
| FERROCP_DEVICE_NETWORK | FERROCP_DEVICE_RAMDISK

fun device_type_value :: "ferrocp_device_type_t \<Rightarrow> c_int" where
  "device_type_value FERROCP_DEVICE_UNKNOWN = 0"
| "device_type_value FERROCP_DEVICE_HDD = 1"
| "device_type_value FERROCP_DEVICE_SSD = 2"
| "device_type_value FERROCP_DEVICE_NETWORK = 3"
| "device_type_value FERROCP_DEVICE_RAMDISK = 4"

datatype ferrocp_error_code_t =
  FERROCP_SUCCESS
| FERROCP_ERROR_GENERIC
| FERROCP_ERROR_FILE_NOT_FOUND
| FERROCP_ERROR_PERMISSION_DENIED
| FERROCP_ERROR_INSUFFICIENT_SPACE
| FERROCP_ERROR_INVALID_PATH
| FERROCP_ERROR_NETWORK
| FERROCP_ERROR_COMPRESSION
| FERROCP_ERROR_VERIFICATION
| FERROCP_ERROR_CANCELLED
| FERROCP_ERROR_INVALID_ARGUMENT
| FERROCP_ERROR_OUT_OF_MEMORY
| FERROCP_ERROR_TIMEOUT

fun error_code_value :: "ferrocp_error_code_t \<Rightarrow> c_int" where
  "error_code_value FERROCP_SUCCESS = 0"
| "error_code_value FERROCP_ERROR_GENERIC = 1"
| "error_code_value FERROCP_ERROR_FILE_NOT_FOUND = 2"
| "error_code_value FERROCP_ERROR_PERMISSION_DENIED = 3"
| "error_code_value FERROCP_ERROR_INSUFFICIENT_SPACE = 4"
| "error_code_value FERROCP_ERROR_INVALID_PATH = 5"
| "error_code_value FERROCP_ERROR_NETWORK = 6"
| "error_code_value FERROCP_ERROR_COMPRESSION = 7"
| "error_code_value FERROCP_ERROR_VERIFICATION = 8"
| "error_code_value FERROCP_ERROR_CANCELLED = 9"
| "error_code_value FERROCP_ERROR_INVALID_ARGUMENT = 10"
| "error_code_value FERROCP_ERROR_OUT_OF_MEMORY = 11"
| "error_code_value FERROCP_ERROR_TIMEOUT = 12"

text \<open>The enumerators of \<open>ferrocp_error_code_t\<close> in the order of their declaration.\<close>

definition error_code_enumerators :: "ferrocp_error_code_t list" where
  "error_code_enumerators =
     [FERROCP_SUCCESS, FERROCP_ERROR_GENERIC, FERROCP_ERROR_FILE_NOT_FOUND,
      FERROCP_ERROR_PERMISSION_DENIED, FERROCP_ERROR_INSUFFICIENT_SPACE,
      FERROCP_ERROR_INVALID_PATH, FERROCP_ERROR_NETWORK, FERROCP_ERROR_COMPRESSION,
      FERROCP_ERROR_VERIFICATION, FERROCP_ERROR_CANCELLED, FERROCP_ERROR_INVALID_ARGUMENT,
      FERROCP_ERROR_OUT_OF_MEMORY, FERROCP_ERROR_TIMEOUT]"

datatype ferrocp_performance_rating_t =
  FERROCP_PERFORMANCE_POOR | FERROCP_PERFORMANCE_FAIR
| FERROCP_PERFORMANCE_GOOD | FERROCP_PERFORMANCE_EXCELLENT

fun performance_rating_value :: "ferrocp_performance_rating_t \<Rightarrow> c_int" where
  "performance_rating_value FERROCP_PERFORMANCE_POOR = 0"
| "performance_rating_value FERROCP_PERFORMANCE_FAIR = 1"
| "performance_rating_value FERROCP_PERFORMANCE_GOOD = 2"
| "performance_rating_value FERROCP_PERFORMANCE_EXCELLENT = 3"

type_synonym ferrocp_engine_handle_t = uint64_t

text \<open>
  The C structs. Their fields carry the prefix \<open>c_\<close>, since the C++ structs of the wrapper
  use the same field names.
\<close>

record ferrocp_result_t =
  c_error_code :: c_int
  c_error_message :: c_str
  c_error_details :: c_str

record ferrocp_stats_t =
  c_files_copied :: uint64_t
  c_directories_created :: uint64_t
  c_bytes_copied :: uint64_t
  c_files_skipped :: uint64_t
  c_errors :: uint64_t
  c_duration_ms :: uint64_t
  c_transfer_rate_mbps :: double
  c_efficiency_percent :: double

record ferrocp_device_info_t =
  c_device_type :: c_str
  c_filesystem :: c_str
  c_total_space :: uint64_t
  c_available_space :: uint64_t
  c_read_speed_mbps :: double
  c_write_speed_mbps :: double

record ferrocp_copy_request_t =
  c_source :: c_str
  c_destination :: c_str
  c_mode :: c_int
  c_compress :: c_int
  c_preserve_metadata :: c_int
  c_verify_copy :: c_int
  c_threads :: c_uint
  c_buffer_size :: uint64_t

subsection \<open>The foreign functions\<close>

text \<open>
  Every call the wrapper makes into the C library is recorded, in order, in a trace. The
  library itself is a parameter: what a call returns may depend on its arguments and on
  all the calls made before it. A function that fills a structure through a pointer
  returns the filled structure next to its return value.
\<close>

datatype ffi_call =
  Call_ferrocp_init
| Call_ferrocp_cleanup
| Call_ferrocp_version
| Call_ferrocp_engine_create
| Call_ferrocp_engine_destroy ferrocp_engine_handle_t
| Call_ferrocp_copy ferrocp_engine_handle_t ferrocp_copy_request_t
| Call_ferrocp_free_result ferrocp_result_t
| Call_ferrocp_get_device_info string
| Call_ferrocp_free_device_info ferrocp_device_info_t
| Call_ferrocp_path_exists string
| Call_ferrocp_is_directory string
| Call_ferrocp_is_file string
| Call_ferrocp_get_file_size string
| Call_ferrocp_join_paths string string
| Call_ferrocp_normalize_path string
| Call_ferrocp_free_string string

type_synonym trace = "ffi_call list"

record ffi =
  ferrocp_init :: "trace \<Rightarrow> c_int"
  ferrocp_version :: "trace \<Rightarrow> string"
  ferrocp_engine_create :: "trace \<Rightarrow> ferrocp_engine_handle_t"
  ferrocp_copy ::
    "trace \<Rightarrow> ferrocp_engine_handle_t \<Rightarrow> ferrocp_copy_request_t \<Rightarrow> c_int \<times> ferrocp_result_t"
  ferrocp_get_device_info :: "trace \<Rightarrow> string \<Rightarrow> c_int \<times> ferrocp_device_info_t"
  ferrocp_path_exists :: "trace \<Rightarrow> string \<Rightarrow> c_int"
  ferrocp_is_directory :: "trace \<Rightarrow> string \<Rightarrow> c_int"
  ferrocp_is_file :: "trace \<Rightarrow> string \<Rightarrow> c_int"
  ferrocp_get_file_size :: "trace \<Rightarrow> string \<Rightarrow> uint64_t"
  ferrocp_join_paths :: "trace \<Rightarrow> string \<Rightarrow> string \<Rightarrow> c_str"
  ferrocp_normalize_path :: "trace \<Rightarrow> string \<Rightarrow> c_str"

section \<open>ferrocp.hpp: the C++ wrapper\<close>

text \<open>
  A function of the wrapper that calls into the C library takes the trace of the foreign
  calls made so far and returns the trace extended by the calls it made. A function that
  may throw returns \<open>Inl\<close> of the exception or \<open>Inr\<close> of its value.
\<close>

subsection \<open>Exception classes\<close>

text \<open>
  The derived classes add no member; an exception value is its dynamic class, the message
  of \<open>std::runtime_error\<close> (read by \<open>what()\<close>) and the private member \<open>error_code_\<close>,
  here \<open>m_error_code\<close>, read by \<open>error_code()\<close>.
\<close>

datatype exception_class =
  Exception
| FileNotFoundException
| PermissionDeniedException
| InsufficientSpaceException

record exception =
  dynamic_class :: exception_class
  what :: string
  m_error_code :: c_int

definition error_code :: "exception \<Rightarrow> c_int" where
  "error_code e = m_error_code e"

definition new_Exception :: "string \<Rightarrow> c_int \<Rightarrow> exception" where
  "new_Exception message code =
     \<lparr>dynamic_class = Exception, what = message, m_error_code = code\<rparr>"

definition new_FileNotFoundException :: "string \<Rightarrow> exception" where
  "new_FileNotFoundException path =
     (new_Exception (''File not found: '' @ path)
        (error_code_value FERROCP_ERROR_FILE_NOT_FOUND))
     \<lparr>dynamic_class := FileNotFoundException\<rparr>"

definition new_PermissionDeniedException :: "string \<Rightarrow> exception" where
  "new_PermissionDeniedException message =
     (new_Exception (''Permission denied: '' @ message)
        (error_code_value FERROCP_ERROR_PERMISSION_DENIED))
     \<lparr>dynamic_class := PermissionDeniedException\<rparr>"

definition new_InsufficientSpaceException :: "string \<Rightarrow> exception" where
  "new_InsufficientSpaceException message =
     (new_Exception (''Insufficient space: '' @ message)
        (error_code_value FERROCP_ERROR_INSUFFICIENT_SPACE))
     \<lparr>dynamic_class := InsufficientSpaceException\<rparr>"

subsection \<open>Enums\<close>

datatype CopyMode = Copy | Move | Sync

fun CopyMode_to_int :: "CopyMode \<Rightarrow> c_int" where
  "CopyMode_to_int Copy = copy_mode_value FERROCP_MODE_COPY"
| "CopyMode_to_int Move = copy_mode_value FERROCP_MODE_MOVE"
| "CopyMode_to_int Sync = copy_mode_value FERROCP_MODE_SYNC"

text \<open>
  \<open>DeviceType\<close> is a scoped enumeration over \<open>int\<close>; the wrapper casts an arbitrary \<open>int\<close>
  to it, so a value of the type is any \<open>int\<close>, five of which have a name.
\<close>

datatype DeviceType = DeviceType c_int

definition Unknown :: DeviceType where "Unknown = DeviceType (device_type_value FERROCP_DEVICE_UNKNOWN)"
definition Hdd :: DeviceType where "Hdd = DeviceType (device_type_value FERROCP_DEVICE_HDD)"
definition Ssd :: DeviceType where "Ssd = DeviceType (device_type_value FERROCP_DEVICE_SSD)"
definition Network :: DeviceType where "Network = DeviceType (device_type_value FERROCP_DEVICE_NETWORK)"
definition RamDisk :: DeviceType where "RamDisk = DeviceType (device_type_value FERROCP_DEVICE_RAMDISK)"

subsection \<open>Data structures\<close>

record CopyStats =
  files_copied :: uint64_t
  directories_created :: uint64_t
  bytes_copied :: uint64_t
  files_skipped :: uint64_t
  errors :: uint64_t
  duration :: uint64_t
  transfer_rate_mbps :: double
  efficiency_percent :: double

text \<open>\<open>CopyStats() = default\<close>: every member takes its default member initializer.\<close>

definition new_CopyStats :: CopyStats where
  "new_CopyStats =
     \<lparr>files_copied = 0, directories_created = 0, bytes_copied = 0, files_skipped = 0,
      errors = 0, duration = 0, transfer_rate_mbps = 0, efficiency_percent = 0\<rparr>"

text \<open>\<open>explicit CopyStats(const ferrocp_stats_t&)\<close>.\<close>

definition CopyStats_of :: "ferrocp_stats_t \<Rightarrow> CopyStats" where
  "CopyStats_of c_stats =
     \<lparr>files_copied = c_files_copied c_stats,
      directories_created = c_directories_created c_stats,
      bytes_copied = c_bytes_copied c_stats,
      files_skipped = c_files_skipped c_stats,
      errors = c_errors c_stats,
      duration = c_duration_ms c_stats,
      transfer_rate_mbps = c_transfer_rate_mbps c_stats,
      efficiency_percent = c_efficiency_percent c_stats\<rparr>"

text \<open>
  \<open>std::stoi(str)\<close> with its default base 10 belongs to the standard library. It converts as
  \<open>strtol\<close> does: leading white space is skipped, one sign is accepted, then the longest
  run of decimal digits is read and whatever follows is ignored. Without a digit it
  throws \<open>std::invalid_argument\<close>; a value that does not fit an \<open>int\<close> throws
  \<open>std::out_of_range\<close>.
\<close>

datatype stoi_error = invalid_argument | out_of_range

definition isspace :: "char \<Rightarrow> bool" where
  "isspace c = (c \<in> set [CHR '' '', CHR 0x09, CHR 0x0A, CHR 0x0B, CHR 0x0C, CHR 0x0D])"

definition isdigit :: "char \<Rightarrow> bool" where
  "isdigit c = (48 \<le> (of_char c :: nat) \<and> (of_char c :: nat) \<le> 57)"

definition digit_value :: "char \<Rightarrow> int" where
  "digit_value c = int (of_char c) - 48"

definition decimal_value :: "string \<Rightarrow> int" where
  "decimal_value ds = foldl (\<lambda>acc c. 10 * acc + digit_value c) 0 ds"

definition stoi :: "string \<Rightarrow> stoi_error + c_int" where
  "stoi str =
     (let s1 = dropWhile isspace str;
          negative = (case s1 of [] \<Rightarrow> False | c # _ \<Rightarrow> c = CHR ''-'');
          s2 = (case s1 of [] \<Rightarrow> []
                | c # rest \<Rightarrow> if c = CHR ''-'' \<or> c = CHR ''+'' then rest else s1);
          digits = takeWhile isdigit s2;
          v = (if negative then - decimal_value digits else decimal_value digits)
      in if digits = [] then Inl invalid_argument
         else if v < - (2 ^ 31) \<or> 2 ^ 31 - 1 < v then Inl out_of_range
         else Inr (word_of_int v))"

record DeviceInfo =
  device_type :: DeviceType
  filesystem :: string
  total_space :: uint64_t
  available_space :: uint64_t
  read_speed_mbps :: double
  write_speed_mbps :: double

text \<open>\<open>DeviceInfo() = default\<close>.\<close>

definition new_DeviceInfo :: DeviceInfo where
  "new_DeviceInfo =
     \<lparr>device_type = Unknown, filesystem = [], total_space = 0, available_space = 0,
      read_speed_mbps = 0, write_speed_mbps = 0\<rparr>"

text \<open>
  \<open>explicit DeviceInfo(const ferrocp_device_info_t&)\<close>. The first member initializer
  calls \<open>std::stoi\<close>, so the constructor throws what \<open>std::stoi\<close> throws.
\<close>

definition DeviceInfo_of :: "ferrocp_device_info_t \<Rightarrow> stoi_error + DeviceInfo" where
  "DeviceInfo_of c_info =
     (case (case c_device_type c_info of Some s \<Rightarrow> stoi s | None \<Rightarrow> Inr 0) of
        Inl e \<Rightarrow> Inl e
      | Inr n \<Rightarrow>
          Inr \<lparr>device_type = DeviceType n,
               filesystem = (case c_filesystem c_info of Some f \<Rightarrow> f | None \<Rightarrow> []),
               total_space = c_total_space c_info,
               available_space = c_available_space c_info,
               read_speed_mbps = c_read_speed_mbps c_info,
               write_speed_mbps = c_write_speed_mbps c_info\<rparr>)"

record CopyRequest =
  source :: string
  destination :: string
  mode :: CopyMode
  compress :: bool
  preserve_metadata :: bool
  verify_copy :: bool
  threads :: c_uint
  buffer_size :: uint64_t

text \<open>
  \<open>CopyRequest(const std::string& src, const std::string& dst)\<close>: the two members of the
  initializer list, every other member from its default member initializer.
\<close>

definition new_CopyRequest :: "string \<Rightarrow> string \<Rightarrow> CopyRequest" where
  "new_CopyRequest src dst =
     \<lparr>source = src, destination = dst, mode = Copy, compress = False,
      preserve_metadata = True, verify_copy = False, threads = 0, buffer_size = 0\<rparr>"

subsection \<open>Callback types\<close>

text \<open>
  A \<open>std::function\<close> returning \<open>void\<close> acts on the caller's own state, of type \<open>'u\<close>;
  an empty \<open>std::function\<close> (the default \<open>nullptr\<close>) is \<open>None\<close>.
\<close>

type_synonym 'u ProgressCallback =
  "(double \<Rightarrow> uint64_t \<Rightarrow> uint64_t \<Rightarrow> string \<Rightarrow> 'u \<Rightarrow> 'u) option"

type_synonym 'u ErrorCallback =
  "(c_int \<Rightarrow> string \<Rightarrow> string \<Rightarrow> 'u \<Rightarrow> 'u) option"

subsection \<open>Library management\<close>

datatype Library = Library

definition new_Library :: "ffi \<Rightarrow> trace \<Rightarrow> (exception + Library) \<times> trace" where
  "new_Library lib t =
     (if ferrocp_init lib t \<noteq> 0
      then (Inl (new_Exception ''Failed to initialize FerroCP library''
                   (error_code_value FERROCP_ERROR_GENERIC)),
            t @ [Call_ferrocp_init])
      else (Inr Library, t @ [Call_ferrocp_init]))"

definition delete_Library :: "Library \<Rightarrow> trace \<Rightarrow> trace" where
  "delete_Library this t = t @ [Call_ferrocp_cleanup]"

definition Library_version :: "ffi \<Rightarrow> Library \<Rightarrow> trace \<Rightarrow> string \<times> trace" where
  "Library_version lib this t = (ferrocp_version lib t, t @ [Call_ferrocp_version])"

subsection \<open>Engine\<close>

text \<open>The private member \<open>handle_\<close> is \<open>m_handle\<close> here.\<close>

record Engine =
  m_handle :: ferrocp_engine_handle_t

definition new_Engine :: "ffi \<Rightarrow> trace \<Rightarrow> (exception + Engine) \<times> trace" where
  "new_Engine lib t =
     (let this = \<lparr>m_handle = ferrocp_engine_create lib t\<rparr>;
          t1 = t @ [Call_ferrocp_engine_create]
      in if m_handle this = 0
         then (Inl (new_Exception ''Failed to create FerroCP engine''
                      (error_code_value FERROCP_ERROR_GENERIC)), t1)
         else (Inr this, t1))"

definition delete_Engine :: "Engine \<Rightarrow> trace \<Rightarrow> trace" where
  "delete_Engine this t =
     (if m_handle this \<noteq> 0 then t @ [Call_ferrocp_engine_destroy (m_handle this)] else t)"

text \<open>
  The move constructor \<open>Engine(Engine&& other)\<close> returns the new object and \<open>other\<close> as the
  constructor leaves it.
\<close>

definition move_Engine :: "Engine \<Rightarrow> Engine \<times> Engine" where
  "move_Engine other = (\<lparr>m_handle = m_handle other\<rparr>, other\<lparr>m_handle := 0\<rparr>)"

text \<open>
  Move assignment \<open>*this = std::move(other)\<close> compares the addresses of the two objects,
  so the objects live in a store, a function from addresses to objects. It does nothing
  when both addresses are the same; otherwise it destroys the handle of \<open>*this\<close> if that
  is not 0, takes the handle of \<open>other\<close> and leaves 0 there.
\<close>

type_synonym address = nat

definition Engine_move_assign ::
  "address \<Rightarrow> address \<Rightarrow> (address \<Rightarrow> Engine) \<Rightarrow> trace \<Rightarrow> (address \<Rightarrow> Engine) \<times> trace" where
  "Engine_move_assign this other store t =
     (if this \<noteq> other
      then (let t1 = (if m_handle (store this) \<noteq> 0
                      then t @ [Call_ferrocp_engine_destroy (m_handle (store this))] else t);
                store1 = store(this := (store this)\<lparr>m_handle := m_handle (store other)\<rparr>);
                store2 = store1(other := (store1 other)\<lparr>m_handle := 0\<rparr>)
            in (store2, t1))
      else (store, t))"

definition throw_exception_for_error_code :: "c_int \<Rightarrow> string \<Rightarrow> exception" where
  "throw_exception_for_error_code code message =
     (if code = error_code_value FERROCP_ERROR_FILE_NOT_FOUND
        then new_FileNotFoundException message
      else if code = error_code_value FERROCP_ERROR_PERMISSION_DENIED
        then new_PermissionDeniedException message
      else if code = error_code_value FERROCP_ERROR_INSUFFICIENT_SPACE
        then new_InsufficientSpaceException message
      else new_Exception message code)"

definition to_c_request :: "CopyRequest \<Rightarrow> ferrocp_copy_request_t" where
  "to_c_request request =
     \<lparr>c_source = Some (source request),
      c_destination = Some (destination request),
      c_mode = CopyMode_to_int (mode request),
      c_compress = (if compress request then 1 else 0),
      c_preserve_metadata = (if preserve_metadata request then 1 else 0),
      c_verify_copy = (if verify_copy request then 1 else 0),
      c_threads = threads request,
      c_buffer_size = buffer_size request\<rparr>"

text \<open>
  \<open>Engine::copy\<close>. The local \<open>result\<close> is zero-initialized and passed by pointer;
  \<open>result\<close> below is the structure as \<open>ferrocp_copy\<close> leaves it. On success the function
  returns \<open>CopyStats{}\<close>.
\<close>

definition Engine_copy ::
  "ffi \<Rightarrow> Engine \<Rightarrow> CopyRequest \<Rightarrow> trace \<Rightarrow> (exception + CopyStats) \<times> trace" where
  "Engine_copy lib this request t =
     (let c_request = to_c_request request;
          (code, result) = ferrocp_copy lib t (m_handle this) c_request;
          t1 = t @ [Call_ferrocp_copy (m_handle this) c_request]
      in if code \<noteq> 0 then
           (let message = (case c_error_message result of
                             Some m \<Rightarrow> m
                           | None \<Rightarrow> ''Unknown error'');
                t2 = t1 @ [Call_ferrocp_free_result result]
            in (Inl (throw_exception_for_error_code code message), t2))
         else (Inr new_CopyStats, t1 @ [Call_ferrocp_free_result result]))"

text \<open>
  \<open>copy_with_progress\<close> runs next to the caller's state \<open>u\<close>, the state the callbacks
  would act on.
\<close>

definition Engine_copy_with_progress ::
  "ffi \<Rightarrow> Engine \<Rightarrow> CopyRequest \<Rightarrow> 'u ProgressCallback \<Rightarrow> 'u ErrorCallback
     \<Rightarrow> trace \<times> 'u \<Rightarrow> (exception + CopyStats) \<times> trace \<times> 'u" where
  "Engine_copy_with_progress lib this request progress_callback error_callback tu =
     (let (r, t') = Engine_copy lib this request (fst tu) in (r, t', snd tu))"

subsection \<open>Utility functions\<close>

text \<open>
  \<open>get_device_info\<close> throws an \<open>Exception\<close> of the wrapper or lets the exception of
  \<open>std::stoi\<close> pass.
\<close>

datatype thrown = Thrown exception | Thrown_std stoi_error

definition get_device_info :: "ffi \<Rightarrow> string \<Rightarrow> trace \<Rightarrow> (thrown + DeviceInfo) \<times> trace" where
  "get_device_info lib path t =
     (let (code, c_info) = ferrocp_get_device_info lib t path;
          t1 = t @ [Call_ferrocp_get_device_info path]
      in if code \<noteq> 0
         then (Inl (Thrown (new_Exception (''Failed to get device info for: '' @ path) code)), t1)
         else (case DeviceInfo_of c_info of
                 Inl e \<Rightarrow> (Inl (Thrown_std e), t1)
               | Inr info \<Rightarrow> (Inr info, t1 @ [Call_ferrocp_free_device_info c_info])))"

definition path_exists :: "ffi \<Rightarrow> string \<Rightarrow> trace \<Rightarrow> bool \<times> trace" where
  "path_exists lib path t = (ferrocp_path_exists lib t path \<noteq> 0, t @ [Call_ferrocp_path_exists path])"

definition is_directory :: "ffi \<Rightarrow> string \<Rightarrow> trace \<Rightarrow> bool \<times> trace" where
  "is_directory lib path t = (ferrocp_is_directory lib t path \<noteq> 0, t @ [Call_ferrocp_is_directory path])"

definition is_file :: "ffi \<Rightarrow> string \<Rightarrow> trace \<Rightarrow> bool \<times> trace" where
  "is_file lib path t = (ferrocp_is_file lib t path \<noteq> 0, t @ [Call_ferrocp_is_file path])"

definition get_file_size :: "ffi \<Rightarrow> string \<Rightarrow> trace \<Rightarrow> uint64_t \<times> trace" where
  "get_file_size lib path t = (ferrocp_get_file_size lib t path, t @ [Call_ferrocp_get_file_size path])"

definition join_paths :: "ffi \<Rightarrow> string \<Rightarrow> string \<Rightarrow> trace \<Rightarrow> (exception + string) \<times> trace" where
  "join_paths lib path1 path2 t =
     (let t1 = t @ [Call_ferrocp_join_paths path1 path2]
      in case ferrocp_join_paths lib t path1 path2 of
           None \<Rightarrow>
             (Inl (new_Exception (''Failed to join paths: '' @ path1 @ '' and '' @ path2)
                     (error_code_value FERROCP_ERROR_GENERIC)), t1)
         | Some result \<Rightarrow> (Inr result, t1 @ [Call_ferrocp_free_string result]))"

definition normalize_path :: "ffi \<Rightarrow> string \<Rightarrow> trace \<Rightarrow> (exception + string) \<times> trace" where
  "normalize_path lib path t =
     (let t1 = t @ [Call_ferrocp_normalize_path path]
      in case ferrocp_normalize_path lib t path of
           None \<Rightarrow>
             (Inl (new_Exception (''Failed to normalize path: '' @ path)
                     (error_code_value FERROCP_ERROR_GENERIC)), t1)
         | Some result \<Rightarrow> (Inr result, t1 @ [Call_ferrocp_free_string result]))"


section \<open>The copy operation behind the interface\<close>

text \<open>
  The engine that executes a request is reached through \<open>ferrocp_copy\<close> only and has no
  source in the repository. Where a property speaks about the operation itself, the
  operation is the state machine of section 4.4 of the specification, with natural
  numbers for its counters. The scheduler, the workers and the environment are a list of
  events; an event that does not apply in the current state leaves the state unchanged.
\<close>

text \<open>Modelled from the spec: the states of a CopyOperation (4.4); the engine is missing.\<close>

datatype phase =
  Planning | Traversing | Transferring | Verifying | Finalizing
| Completed | Failed | Cancelled

text \<open>Modelled from the spec: the terminal states of a CopyOperation (4.4).\<close>

definition terminal :: "phase \<Rightarrow> bool" where
  "terminal p = (p = Completed \<or> p = Failed \<or> p = Cancelled)"

text \<open>
  Modelled from the spec: the fate of one source file in the missing engine: still to do,
  skipped as identical (Sync), fully copied, or failed (4.4).
\<close>

datatype file_status = Pending | Skipped | Copied | Errored

text \<open>
  Modelled from the spec: what the missing engine deals with for one source file. The
  size that the source reported at the start of the operation (sections 3 and 8) and the
  number of bytes that the file holds when it is read are two numbers: they agree unless
  the file is changed from outside after the start. \<open>ft_written\<close> counts the bytes of
  the current copy of the file transferred so far; \<open>ft_retried\<close> says that the copy of
  the file has been retried after a verification mismatch (4.4, Verifying).
\<close>

record file_task =
  ft_size :: nat
  ft_length :: nat
  ft_written :: nat
  ft_status :: file_status
  ft_retried :: bool

text \<open>
  Modelled from the spec: the CopyOperation of section 3 (current phase, cumulative
  counters, sub-tasks) with the request's verify flag, the verification policy (\<open>op_retry\<close>:
  a mismatching file is copied once more; otherwise it is marked as failed) and the
  buffer size chosen for the operation; the engine is missing.
\<close>

record CopyOperation =
  op_phase :: phase
  op_verify :: bool
  op_retry :: bool
  op_buffer_size :: nat
  op_files :: "file_task list"
  op_bytes_copied :: nat
  op_files_copied :: nat
  op_directories_created :: nat
  op_files_skipped :: nat
  op_errors :: nat

text \<open>
  Modelled from the spec: a file at the start of the operation, from the size reported
  and the length it will be read with.
\<close>

definition new_file_task :: "nat \<times> nat \<Rightarrow> file_task" where
  "new_file_task f =
     \<lparr>ft_size = fst f, ft_length = snd f, ft_written = 0, ft_status = Pending,
      ft_retried = False\<rparr>"

text \<open>
  Modelled from the spec: a submitted operation starts in Planning with all counters zero;
  each file is given by the size reported at the start and its length when read.
\<close>

definition new_CopyOperation :: "(nat \<times> nat) list \<Rightarrow> bool \<Rightarrow> bool \<Rightarrow> nat \<Rightarrow> CopyOperation" where
  "new_CopyOperation files verify retry buffer =
     \<lparr>op_phase = Planning, op_verify = verify, op_retry = retry, op_buffer_size = buffer,
      op_files = map new_file_task files,
      op_bytes_copied = 0, op_files_copied = 0, op_directories_created = 0,
      op_files_skipped = 0, op_errors = 0\<rparr>"

text \<open>
  Modelled from the spec: \<open>total_bytes\<close> of a progress event, the sum of the source-reported
  file sizes.
\<close>

definition total_bytes :: "CopyOperation \<Rightarrow> nat" where
  "total_bytes op = sum_list (map ft_size (op_files op))"


text \<open>
  Modelled from the spec: what can happen to a running operation (4.1, 4.4): the phase
  advances, Planning skips an identical file, Traversing creates a directory, a worker
  transfers the next chunk of a file or completes the file, Verifying finds the digests
  of a file different, a file fails with another non-fatal error, a fatal error aborts,
  the caller cancels.
\<close>

datatype op_event =
  Next_phase | Skip_file nat | Create_directory | Copy_chunk nat | Finish_file nat
| Verify_mismatch nat | File_error nat | Fatal_error | Cancel

text \<open>
  Modelled from the spec: the order of the states (4.4); Verifying is entered only if
  \<open>verify_copy\<close> is set.
\<close>

fun next_phase :: "bool \<Rightarrow> phase \<Rightarrow> phase" where
  "next_phase v Planning = Traversing"
| "next_phase v Traversing = Transferring"
| "next_phase v Transferring = (if v then Verifying else Finalizing)"
| "next_phase v Verifying = Finalizing"
| "next_phase v Finalizing = Completed"
| "next_phase v p = p"

text \<open>Modelled from the spec: file \<open>i\<close> of the operation exists and has the given status.\<close>

definition has_status :: "CopyOperation \<Rightarrow> nat \<Rightarrow> file_status \<Rightarrow> bool" where
  "has_status op i st = (i < length (op_files op) \<and> ft_status (op_files op ! i) = st)"

text \<open>
  Modelled from the spec: the phases in which files are copied: Transferring, and
  Verifying for the file copies that it retries (4.4).
\<close>

definition copying :: "CopyOperation \<Rightarrow> bool" where
  "copying op = (op_phase op = Transferring \<or> op_phase op = Verifying)"

text \<open>
  Modelled from the spec: a file copy reads the source in chunks of the buffer size (4.4):
  a read returns a full buffer or the bytes that the file still holds beyond those read.
\<close>

definition chunk_length :: "CopyOperation \<Rightarrow> nat \<Rightarrow> nat" where
  "chunk_length op i =
     min (op_buffer_size op) (ft_length (op_files op ! i) - ft_written (op_files op ! i))"

text \<open>
  Modelled from the spec: one event on a running operation (4.4). The byte counter is
  updated after each chunk. A file is complete when all the bytes it holds are
  transferred, and counts as copied once. A verification mismatch is reported as an
  error and, per policy, either the file copy is retried once (the file is copied again
  from its first byte, chunk by chunk, with the cumulative byte counter updated after
  each chunk as for every file copy) or the file is marked as failed; a file that
  mismatches again after its retry is marked as failed. A phase in which files are copied
  is left only when no file is pending.
\<close>

fun op_event_step :: "op_event \<Rightarrow> CopyOperation \<Rightarrow> CopyOperation" where
  "op_event_step Next_phase op =
     (if copying op \<and> Pending \<in> set (map ft_status (op_files op)) then op
      else op\<lparr>op_phase := next_phase (op_verify op) (op_phase op)\<rparr>)"
| "op_event_step (Skip_file i) op =
     (if op_phase op = Planning \<and> has_status op i Pending
      then op\<lparr>op_files := (op_files op)[i := (op_files op ! i)\<lparr>ft_status := Skipped\<rparr>],
              op_files_skipped := op_files_skipped op + 1\<rparr>
      else op)"
| "op_event_step Create_directory op =
     (if op_phase op = Traversing
      then op\<lparr>op_directories_created := op_directories_created op + 1\<rparr> else op)"
| "op_event_step (Copy_chunk i) op =
     (if copying op \<and> has_status op i Pending
      then op\<lparr>op_files := (op_files op)[i := (op_files op ! i)
                 \<lparr>ft_written := ft_written (op_files op ! i) + chunk_length op i\<rparr>],
              op_bytes_copied := op_bytes_copied op + chunk_length op i\<rparr>
      else op)"
| "op_event_step (Finish_file i) op =
     (if copying op \<and> has_status op i Pending
         \<and> ft_written (op_files op ! i) = ft_length (op_files op ! i)
      then op\<lparr>op_files := (op_files op)[i := (op_files op ! i)\<lparr>ft_status := Copied\<rparr>],
              op_files_copied :=
                op_files_copied op + (if ft_retried (op_files op ! i) then 0 else 1)\<rparr>
      else op)"
| "op_event_step (Verify_mismatch i) op =
     (if op_phase op = Verifying \<and> has_status op i Copied
      then (if op_retry op \<and> \<not> ft_retried (op_files op ! i)
            then op\<lparr>op_files := (op_files op)[i := (op_files op ! i)
                       \<lparr>ft_written := 0, ft_status := Pending, ft_retried := True\<rparr>],
                    op_errors := op_errors op + 1\<rparr>
            else op\<lparr>op_files := (op_files op)[i := (op_files op ! i)\<lparr>ft_status := Errored\<rparr>],
                    op_errors := op_errors op + 1\<rparr>)
      else op)"
| "op_event_step (File_error i) op =
     (if i < length (op_files op)
      then op\<lparr>op_files := (op_files op)[i := (op_files op ! i)\<lparr>ft_status := Errored\<rparr>],
              op_errors := op_errors op + 1\<rparr>
      else op)"
| "op_event_step Fatal_error op = op\<lparr>op_phase := Failed\<rparr>"
| "op_event_step Cancel op = op\<lparr>op_phase := Cancelled\<rparr>"

text \<open>Modelled from the spec: an operation in a terminal state does not change any more.\<close>

definition op_step :: "op_event \<Rightarrow> CopyOperation \<Rightarrow> CopyOperation" where
  "op_step e op = (if terminal (op_phase op) then op else op_event_step e op)"





text \<open>
  Modelled from the spec: the efficiency percentage, the observed transfer rate as a
  fraction of the device's theoretical rate, clamped to the interval from 0 to 100
  (sections 3 and 8, glossary); the engine that computes it is missing. The rates are
  real numbers here; what the engine does with a theoretical rate of 0 or with a
  not-a-number is not said in the specification and not modelled.
\<close>

definition efficiency_percent_of :: "double \<Rightarrow> double \<Rightarrow> double" where
  "efficiency_percent_of rate theoretical_rate =
     max 0 (min 100 (100 * (rate / theoretical_rate)))"

text \<open>
  Modelled from the spec: Finalizing aggregates the statistics of the operation (4.4) into
  the C structure \<open>ferrocp_stats_t\<close>; the engine is missing.
\<close>

definition aggregate_stats ::
  "CopyOperation \<Rightarrow> nat \<Rightarrow> double \<Rightarrow> double \<Rightarrow> ferrocp_stats_t" where
  "aggregate_stats op elapsed_ms rate theoretical_rate =
     \<lparr>c_files_copied = of_nat (op_files_copied op),
      c_directories_created = of_nat (op_directories_created op),
      c_bytes_copied = of_nat (op_bytes_copied op),
      c_files_skipped = of_nat (op_files_skipped op),
      c_errors = of_nat (op_errors op),
      c_duration_ms = of_nat elapsed_ms,
      c_transfer_rate_mbps = rate,
      c_efficiency_percent = efficiency_percent_of rate theoretical_rate\<rparr>"


text \<open>
  Modelled from the spec: the bodies of the C functions are missing; section 7 calls the
  error taxonomy closed, so every code such a function returns is the value of an
  enumerator of \<open>ferrocp_error_code_t\<close>.
\<close>

definition closed_taxonomy :: "ffi \<Rightarrow> bool" where
  "closed_taxonomy lib =
     ((\<forall>t. ferrocp_init lib t \<in> range error_code_value) \<and>
      (\<forall>t h r. fst (ferrocp_copy lib t h r) \<in> range error_code_value) \<and>
      (\<forall>t p. fst (ferrocp_get_device_info lib t p) \<in> range error_code_value))"

text \<open>
  Modelled from the spec: the body of \<open>ferrocp_engine_create\<close> is missing. Creating an
  engine fails (resource exhaustion, 4.1) or yields an engine with an opaque 64-bit
  identifier (section 6).
\<close>

datatype creation = Creation_failed | Created ferrocp_engine_handle_t

text \<open>Modelled from the spec: the identifier of an engine is not zero (section 6).\<close>

definition creation_valid :: "creation \<Rightarrow> bool" where
  "creation_valid c = (case c of Creation_failed \<Rightarrow> True | Created h \<Rightarrow> h \<noteq> 0)"

text \<open>
  Modelled from the spec: what the missing \<open>ferrocp_engine_create\<close> returns: the handle to
  the engine, or 0 on failure (header comment; section 6).
\<close>

definition created_handle :: "creation \<Rightarrow> ferrocp_engine_handle_t" where
  "created_handle c = (case c of Creation_failed \<Rightarrow> 0 | Created h \<Rightarrow> h)"

section \<open>Invariant of a run of the operation\<close>




text \<open>The two sizes of a file, which no event changes.\<close>

definition file_sizes :: "file_task \<Rightarrow> nat \<times> nat" where
  "file_sizes f = (ft_size f, ft_length f)"

section \<open>Example inputs\<close>

text \<open>
  A library whose answers do not depend on the history: \<open>ferrocp_init\<close> returns
  \<open>init_code\<close>, \<open>ferrocp_engine_create\<close> returns \<open>handle\<close>, \<open>ferrocp_copy\<close> returns
  \<open>copy_code\<close> and a result with the message \<open>copy_message\<close>.
\<close>

definition stub_library :: "c_int \<Rightarrow> ferrocp_engine_handle_t \<Rightarrow> c_int \<Rightarrow> c_str \<Rightarrow> ffi" where
  "stub_library init_code handle copy_code copy_message =
     \<lparr>ferrocp_init = (\<lambda>t. init_code),
      ferrocp_version = (\<lambda>t. ''0.2.0''),
      ferrocp_engine_create = (\<lambda>t. handle),
      ferrocp_copy = (\<lambda>t h r. (copy_code,
         \<lparr>c_error_code = copy_code, c_error_message = copy_message, c_error_details = None\<rparr>)),
      ferrocp_get_device_info = (\<lambda>t p. (0,
         \<lparr>c_device_type = None, c_filesystem = None, c_total_space = 0,
          c_available_space = 0, c_read_speed_mbps = 0, c_write_speed_mbps = 0\<rparr>)),
      ferrocp_path_exists = (\<lambda>t p. 0),
      ferrocp_is_directory = (\<lambda>t p. 0),
      ferrocp_is_file = (\<lambda>t p. 0),
      ferrocp_get_file_size = (\<lambda>t p. 0),
      ferrocp_join_paths = (\<lambda>t p q. None),
      ferrocp_normalize_path = (\<lambda>t p. None)\<rparr>"

text \<open>
  The scenario of section 8: a tree of three files of 0 bytes, 1 KiB and 10 MiB and one
  subdirectory, copied with \<open>verify_copy\<close> set; and a run of the operation on it, each
  file given by its reported size and its length.
\<close>

definition scenario_request :: CopyRequest where
  "scenario_request = (new_CopyRequest ''tree'' ''dest'')\<lparr>verify_copy := True\<rparr>"

definition scenario_files :: "(nat \<times> nat) list" where
  "scenario_files = [(0, 0), (1024, 1024), (10485760, 10485760)]"




text \<open>A device information structure as the C library may fill it.\<close>

definition example_device_info :: "c_str \<Rightarrow> c_str \<Rightarrow> ferrocp_device_info_t" where
  "example_device_info dev fs =
     \<lparr>c_device_type = dev, c_filesystem = fs, c_total_space = 1000,
      c_available_space = 400, c_read_speed_mbps = 500, c_write_speed_mbps = 450\<rparr>"

text \<open>
  Callbacks that record each of their invocations in the caller's state, a list of
  invocations.
\<close>

datatype callback_invocation =
  Progress_invoked double uint64_t uint64_t string
| Error_invoked c_int string string

definition record_progress ::
  "double \<Rightarrow> uint64_t \<Rightarrow> uint64_t \<Rightarrow> string
     \<Rightarrow> callback_invocation list \<Rightarrow> callback_invocation list" where
  "record_progress progress_percent bytes total_b current_file calls =
     calls @ [Progress_invoked progress_percent bytes total_b current_file]"

definition record_error ::
  "c_int \<Rightarrow> string \<Rightarrow> string \<Rightarrow> callback_invocation list \<Rightarrow> callback_invocation list" where
  "record_error code message file_path calls = calls @ [Error_invoked code message file_path]"

section \<open>Properties of the wrapper\<close>

subsection \<open>Engine::copy\<close>

lemma Engine_copy_nonzero:
  assumes "ferrocp_copy lib t (m_handle this) (to_c_request request) = (code, result)"
    and "code \<noteq> 0"
  shows "Engine_copy lib this request t =
           (Inl (throw_exception_for_error_code code
                   (case c_error_message result of Some m \<Rightarrow> m | None \<Rightarrow> ''Unknown error'')),
            t @ [Call_ferrocp_copy (m_handle this) (to_c_request request),
                 Call_ferrocp_free_result result])"
  using assms by (simp add: Engine_copy_def Let_def)

lemma Engine_copy_zero:
  assumes "ferrocp_copy lib t (m_handle this) (to_c_request request) = (0, result)"
  shows "Engine_copy lib this request t =
           (Inr new_CopyStats,
            t @ [Call_ferrocp_copy (m_handle this) (to_c_request request),
                 Call_ferrocp_free_result result])"
  using assms by (simp add: Engine_copy_def Let_def)

lemma error_code_thrown: "error_code (throw_exception_for_error_code code message) = code"
  by (simp add: throw_exception_for_error_code_def error_code_def new_Exception_def
      new_FileNotFoundException_def new_PermissionDeniedException_def
      new_InsufficientSpaceException_def)

lemma thrown_cases:
  "throw_exception_for_error_code code message =
     \<lparr>dynamic_class =
        (if code = 2 then FileNotFoundException
         else if code = 3 then PermissionDeniedException
         else if code = 4 then InsufficientSpaceException
         else Exception),
      what =
        (if code = 2 then ''File not found: '' @ message
         else if code = 3 then ''Permission denied: '' @ message
         else if code = 4 then ''Insufficient space: '' @ message
         else message),
      m_error_code = code\<rparr>"
  by (simp add: throw_exception_for_error_code_def new_Exception_def
      new_FileNotFoundException_def new_PermissionDeniedException_def
      new_InsufficientSpaceException_def)

lemma Engine_copy_success:
  assumes "fst (Engine_copy lib this request t) = Inr stats"
  shows "stats = new_CopyStats"
proof -
  obtain code result
    where call: "ferrocp_copy lib t (m_handle this) (to_c_request request) = (code, result)"
    by (cases "ferrocp_copy lib t (m_handle this) (to_c_request request)")
  show ?thesis
  proof (cases "code = 0")
    case True
    with call assms show ?thesis by (simp add: Engine_copy_zero)
  next
    case False
    with call assms show ?thesis by (simp add: Engine_copy_nonzero)
  qed
qed

lemma Engine_copy_code:
  assumes "fst (Engine_copy lib this request t) = Inl ex"
  shows "error_code ex = fst (ferrocp_copy lib t (m_handle this) (to_c_request request))
         \<and> error_code ex \<noteq> 0"
proof -
  obtain code result
    where call: "ferrocp_copy lib t (m_handle this) (to_c_request request) = (code, result)"
    by (cases "ferrocp_copy lib t (m_handle this) (to_c_request request)")
  show ?thesis
  proof (cases "code = 0")
    case True
    with call assms show ?thesis by (simp add: Engine_copy_zero)
  next
    case False
    with call assms show ?thesis by (auto simp: Engine_copy_nonzero error_code_thrown)
  qed
qed

text \<open>
  Claim C1, as the code has it. Let \<open>ferrocp_copy\<close> return \<open>code\<close> and fill \<open>result\<close>. If
  \<open>code\<close> is 0, \<open>Engine::copy\<close> throws nothing. Otherwise it throws an exception whose
  \<open>error_code()\<close> is \<open>code\<close>; its class is \<open>FileNotFoundException\<close>,
  \<open>PermissionDeniedException\<close> or \<open>InsufficientSpaceException\<close> for the codes 2, 3 and 4
  and the base \<open>Exception\<close> for every other code; its message is the result's
  \<open>error_message\<close>, or \<open>Unknown error\<close> when that pointer is null, behind the prefix that
  the constructor of the derived class puts in front (none for the base class). In both
  cases the result structure is freed once, right after the call.
\<close>

theorem Engine_copy_error_to_exception:
  assumes "ferrocp_copy lib t (m_handle this) (to_c_request request) = (code, result)"
  shows "(code = 0 \<longrightarrow> (\<exists>stats. fst (Engine_copy lib this request t) = Inr stats)) \<and>
         (code \<noteq> 0 \<longrightarrow>
            (\<exists>ex. fst (Engine_copy lib this request t) = Inl ex \<and>
                  error_code ex = code \<and>
                  what ex =
                    (if code = error_code_value FERROCP_ERROR_FILE_NOT_FOUND
                       then ''File not found: ''
                     else if code = error_code_value FERROCP_ERROR_PERMISSION_DENIED
                       then ''Permission denied: ''
                     else if code = error_code_value FERROCP_ERROR_INSUFFICIENT_SPACE
                       then ''Insufficient space: ''
                     else [])
                    @ (case c_error_message result of
                         Some m \<Rightarrow> m
                       | None \<Rightarrow> ''Unknown error'') \<and>
                  dynamic_class ex =
                    (if code = error_code_value FERROCP_ERROR_FILE_NOT_FOUND
                       then FileNotFoundException
                     else if code = error_code_value FERROCP_ERROR_PERMISSION_DENIED
                       then PermissionDeniedException
                     else if code = error_code_value FERROCP_ERROR_INSUFFICIENT_SPACE
                       then InsufficientSpaceException
                     else Exception))) \<and>
         snd (Engine_copy lib this request t) =
           t @ [Call_ferrocp_copy (m_handle this) (to_c_request request),
                Call_ferrocp_free_result result]"
proof (cases "code = 0")
  case True
  with assms show ?thesis by (simp add: Engine_copy_zero)
next
  case False
  with assms show ?thesis
    by (simp add: Engine_copy_nonzero error_code_thrown) (simp add: thrown_cases)
qed

theorem Engine_copy_error_to_exception_witness:
  "ferrocp_copy (stub_library 0 1 3 None) [] (m_handle \<lparr>m_handle = 1\<rparr>)
     (to_c_request (new_CopyRequest ''a'' ''b''))
     = (3, \<lparr>c_error_code = 3, c_error_message = None, c_error_details = None\<rparr>) \<and>
   fst (Engine_copy (stub_library 0 1 3 None) \<lparr>m_handle = 1\<rparr> (new_CopyRequest ''a'' ''b'') [])
     = Inl \<lparr>dynamic_class = PermissionDeniedException,
            what = ''Permission denied: Unknown error'', m_error_code = 3\<rparr>"
proof -
  have call: "ferrocp_copy (stub_library 0 1 3 None) [] (m_handle \<lparr>m_handle = 1\<rparr>)
                (to_c_request (new_CopyRequest ''a'' ''b''))
              = (3, \<lparr>c_error_code = 3, c_error_message = None, c_error_details = None\<rparr>)"
    by (simp add: stub_library_def)
  from Engine_copy_error_to_exception [OF call]
  obtain ex where "fst (Engine_copy (stub_library 0 1 3 None) \<lparr>m_handle = 1\<rparr>
                          (new_CopyRequest ''a'' ''b'') []) = Inl ex"
    and "error_code ex = 3" and "what ex = ''Permission denied: Unknown error''"
    and "dynamic_class ex = PermissionDeniedException"
    by auto
  with call show ?thesis by (cases ex) (simp add: error_code_def)
qed

text \<open>
  Claim C1 as stated fails: here \<open>ferrocp_copy\<close> returns \<open>FERROCP_ERROR_FILE_NOT_FOUND\<close>
  with the message \<open>gone\<close>, and the message of the exception thrown is
  \<open>File not found: gone\<close>, not the result's \<open>error_message\<close>.
\<close>

theorem Engine_copy_message_counterexample:
  "fst (ferrocp_copy (stub_library 0 1 2 (Some ''gone'')) [] 1
          (to_c_request (new_CopyRequest ''a'' ''b''))) = 2 \<and>
   c_error_message (snd (ferrocp_copy (stub_library 0 1 2 (Some ''gone'')) [] 1
          (to_c_request (new_CopyRequest ''a'' ''b'')))) = Some ''gone'' \<and>
   fst (Engine_copy (stub_library 0 1 2 (Some ''gone'')) \<lparr>m_handle = 1\<rparr>
          (new_CopyRequest ''a'' ''b'') [])
     = Inl \<lparr>dynamic_class = FileNotFoundException, what = ''File not found: gone'',
            m_error_code = 2\<rparr> \<and>
   ''File not found: gone'' \<noteq> ''gone''"
  by (simp add: stub_library_def Engine_copy_def thrown_cases)

text \<open>
  Claim C2 on the code: in the scenario of section 8 the C call succeeds, and
  \<open>Engine::copy\<close> returns a default-constructed \<open>CopyStats\<close>, in which \<open>files_copied\<close> and
  \<open>directories_created\<close> are 0, not 3 and 1.
\<close>

theorem Engine_copy_scenario_stats:
  "fst (ferrocp_copy (stub_library 0 1 0 None) [] 1 (to_c_request scenario_request)) = 0 \<and>
   verify_copy scenario_request \<and>
   fst (Engine_copy (stub_library 0 1 0 None) \<lparr>m_handle = 1\<rparr> scenario_request [])
     = Inr \<lparr>files_copied = 0, directories_created = 0, bytes_copied = 0, files_skipped = 0,
            errors = 0, duration = 0, transfer_rate_mbps = 0, efficiency_percent = 0\<rparr>"
  by (simp add: stub_library_def Engine_copy_def new_CopyStats_def scenario_request_def)

subsection \<open>Library and Engine life cycle\<close>

text \<open>
  Claim C7. The constructor of \<open>Library\<close> calls \<open>ferrocp_init\<close> once and throws an
  \<open>Exception\<close> exactly when the call returns non-zero; the destructor calls
  \<open>ferrocp_cleanup\<close>, whatever the state.
\<close>

theorem Library_init_cleanup:
  "((\<exists>ex. fst (new_Library lib t) = Inl ex) \<longleftrightarrow> ferrocp_init lib t \<noteq> 0) \<and>
   (ferrocp_init lib t \<noteq> 0 \<longrightarrow>
      fst (new_Library lib t) =
        Inl (new_Exception ''Failed to initialize FerroCP library''
               (error_code_value FERROCP_ERROR_GENERIC))) \<and>
   (ferrocp_init lib t = 0 \<longrightarrow> fst (new_Library lib t) = Inr Library) \<and>
   snd (new_Library lib t) = t @ [Call_ferrocp_init] \<and>
   delete_Library this t' = t' @ [Call_ferrocp_cleanup]"
  by (simp add: new_Library_def delete_Library_def)

theorem Library_init_cleanup_witness:
  "ferrocp_init (stub_library 5 1 0 None) [] \<noteq> 0 \<and>
   fst (new_Library (stub_library 5 1 0 None) []) =
     Inl \<lparr>dynamic_class = Exception, what = ''Failed to initialize FerroCP library'',
          m_error_code = 1\<rparr> \<and>
   ferrocp_init (stub_library 0 1 0 None) [] = 0 \<and>
   fst (new_Library (stub_library 0 1 0 None) []) = Inr Library \<and>
   delete_Library Library [Call_ferrocp_init] = [Call_ferrocp_init, Call_ferrocp_cleanup]"
  using Library_init_cleanup [of "stub_library 5 1 0 None" "[]" Library "[Call_ferrocp_init]"]
    Library_init_cleanup [of "stub_library 0 1 0 None" "[]" Library "[Call_ferrocp_init]"]
  by (simp add: stub_library_def new_Exception_def)

text \<open>
  Claim C6, as the code has it. A handle is a 64-bit word. \<open>ferrocp_engine_create\<close>
  returns 0 exactly when creation fails, the identifier of an engine being non-zero. The
  constructor \<open>Engine()\<close> calls it once; it throws an \<open>Exception\<close> when the handle
  returned is 0, that is exactly when creation failed, and otherwise the object it
  constructs holds that non-zero handle. The move constructor hands the handle over and
  leaves 0 in the object moved from.
\<close>

theorem Engine_handle:
  "(ferrocp_engine_create lib t = 0 \<longrightarrow>
      fst (new_Engine lib t) =
        Inl (new_Exception ''Failed to create FerroCP engine''
               (error_code_value FERROCP_ERROR_GENERIC))) \<and>
   (ferrocp_engine_create lib t \<noteq> 0 \<longrightarrow>
      fst (new_Engine lib t) = Inr \<lparr>m_handle = ferrocp_engine_create lib t\<rparr>) \<and>
   (\<forall>this. fst (new_Engine lib t) = Inr this \<longrightarrow> m_handle this \<noteq> 0) \<and>
   snd (new_Engine lib t) = t @ [Call_ferrocp_engine_create] \<and>
   m_handle (fst (move_Engine other)) = m_handle other \<and>
   m_handle (snd (move_Engine other)) = 0 \<and>
   (creation_valid c \<longrightarrow> (created_handle c = 0 \<longleftrightarrow> c = Creation_failed)) \<and>
   (creation_valid c \<and> ferrocp_engine_create lib t = created_handle c \<longrightarrow>
      ((\<exists>ex. fst (new_Engine lib t) = Inl ex) \<longleftrightarrow> c = Creation_failed))"
proof -
  have zero: "creation_valid c \<longrightarrow> (created_handle c = 0 \<longleftrightarrow> c = Creation_failed)"
    by (cases c) (simp_all add: creation_valid_def created_handle_def)
  have throws: "(\<exists>ex. fst (new_Engine lib t) = Inl ex) \<longleftrightarrow> ferrocp_engine_create lib t = 0"
    by (simp add: new_Engine_def Let_def)
  have fails: "creation_valid c \<and> ferrocp_engine_create lib t = created_handle c \<longrightarrow>
      ((\<exists>ex. fst (new_Engine lib t) = Inl ex) \<longleftrightarrow> c = Creation_failed)"
    using zero throws by metis
  have constructed:
    "(ferrocp_engine_create lib t = 0 \<longrightarrow>
        fst (new_Engine lib t) =
          Inl (new_Exception ''Failed to create FerroCP engine''
                 (error_code_value FERROCP_ERROR_GENERIC))) \<and>
     (ferrocp_engine_create lib t \<noteq> 0 \<longrightarrow>
        fst (new_Engine lib t) = Inr \<lparr>m_handle = ferrocp_engine_create lib t\<rparr>) \<and>
     (\<forall>this. fst (new_Engine lib t) = Inr this \<longrightarrow> m_handle this \<noteq> 0) \<and>
     snd (new_Engine lib t) = t @ [Call_ferrocp_engine_create]"
    by (auto simp: new_Engine_def Let_def)
  have moved: "m_handle (fst (move_Engine other)) = m_handle other \<and>
               m_handle (snd (move_Engine other)) = 0"
    by (simp add: move_Engine_def)
  from constructed moved zero fails show ?thesis by (intro conjI) (elim conjE, assumption)+
qed

theorem Engine_handle_witness:
  "creation_valid (Created 7) \<and>
   ferrocp_engine_create (stub_library 0 7 0 None) [] = created_handle (Created 7) \<and>
   ferrocp_engine_create (stub_library 0 7 0 None) [] \<noteq> 0 \<and>
   fst (new_Engine (stub_library 0 7 0 None) []) = Inr \<lparr>m_handle = 7\<rparr> \<and>
   creation_valid Creation_failed \<and>
   ferrocp_engine_create (stub_library 0 0 0 None) [] = created_handle Creation_failed \<and>
   ferrocp_engine_create (stub_library 0 0 0 None) [] = 0 \<and>
   fst (new_Engine (stub_library 0 0 0 None) []) =
     Inl \<lparr>dynamic_class = Exception, what = ''Failed to create FerroCP engine'',
          m_error_code = 1\<rparr>"
  using Engine_handle [of "stub_library 0 7 0 None" "[]" _ "Created 7"]
    Engine_handle [of "stub_library 0 0 0 None" "[]" _ Creation_failed]
  by (simp add: stub_library_def new_Exception_def creation_valid_def created_handle_def)

text \<open>
  Move assignment, which the properties above leave aside: between two distinct objects
  it hands the handle over and leaves 0 behind; on one and the same object it changes
  nothing and calls nothing.
\<close>

lemma Engine_move_assign_distinct:
  assumes "this \<noteq> other"
  shows "m_handle (fst (Engine_move_assign this other store t) this) = m_handle (store other)"
    and "m_handle (fst (Engine_move_assign this other store t) other) = 0"
  using assms by (simp_all add: Engine_move_assign_def Let_def)

lemma Engine_move_assign_self: "Engine_move_assign this this store t = (store, t)"
  by (simp add: Engine_move_assign_def)

text \<open>
  Claim C6 as stated fails for objects that take part in a move construction: an
  \<open>Engine\<close> constructed with handle 7 holds 0 after another one has been move-constructed
  from it, and an \<open>Engine\<close> move-constructed from that object holds 0 from the start.
\<close>

theorem Engine_moved_from_counterexample:
  "fst (new_Engine (stub_library 0 7 0 None) []) = Inr \<lparr>m_handle = 7\<rparr> \<and>
   m_handle (snd (move_Engine \<lparr>m_handle = 7\<rparr>)) = 0 \<and>
   m_handle (fst (move_Engine (snd (move_Engine \<lparr>m_handle = 7\<rparr>)))) = 0"
  by (simp add: new_Engine_def stub_library_def move_Engine_def)

subsection \<open>Engine::copy_with_progress\<close>

lemma copy_with_progress_eq:
  "Engine_copy_with_progress lib this request progress_callback error_callback (t, u) =
     (fst (Engine_copy lib this request t), snd (Engine_copy lib this request t), u)"
  by (simp add: Engine_copy_with_progress_def split: prod.splits)

text \<open>
  Claim C8. For every request and every pair of callbacks, \<open>copy_with_progress\<close> returns
  or throws what \<open>copy\<close> does, makes the same foreign calls, and leaves the state the
  callbacks act on as it was; with callbacks that record their invocations, none is
  recorded.
\<close>

theorem copy_with_progress_is_copy:
  "Engine_copy_with_progress lib this request progress_callback error_callback (t, u) =
     (fst (Engine_copy lib this request t), snd (Engine_copy lib this request t), u) \<and>
   snd (snd (Engine_copy_with_progress lib this request
               (Some record_progress) (Some record_error) (t, []))) = []"
  by (simp add: copy_with_progress_eq)

subsection \<open>CopyRequest and DeviceInfo\<close>

text \<open>
  Claim C9. A \<open>CopyRequest\<close> constructed from two paths (empty or not) keeps them and has
  mode \<open>Copy\<close>, no compression, metadata preservation on, no verification, and 0 for
  both the thread count and the buffer size.
\<close>

theorem CopyRequest_defaults:
  "source (new_CopyRequest src dst) = src \<and>
   destination (new_CopyRequest src dst) = dst \<and>
   mode (new_CopyRequest src dst) = Copy \<and>
   compress (new_CopyRequest src dst) = False \<and>
   preserve_metadata (new_CopyRequest src dst) = True \<and>
   verify_copy (new_CopyRequest src dst) = False \<and>
   threads (new_CopyRequest src dst) = 0 \<and>
   buffer_size (new_CopyRequest src dst) = 0"
  by (simp add: new_CopyRequest_def)

lemma isdigit_not_space: "isdigit c \<Longrightarrow> \<not> isspace c"
  by (auto simp: isdigit_def isspace_def)

lemma isdigit_not_sign: "isdigit c \<Longrightarrow> c \<noteq> CHR ''-'' \<and> c \<noteq> CHR ''+''"
  by (auto simp: isdigit_def)

lemma digit_value_nonneg: "isdigit c \<Longrightarrow> 0 \<le> digit_value c"
  by (simp add: isdigit_def digit_value_def)

lemma foldl_digits_nonneg:
  assumes "0 \<le> acc" and "\<forall>c \<in> set ds. isdigit c"
  shows "0 \<le> foldl (\<lambda>acc c. 10 * acc + digit_value c) acc ds"
  using assms
proof (induction ds arbitrary: acc)
  case Nil
  then show ?case by simp
next
  case (Cons d ds)
  from Cons.prems have "0 \<le> 10 * acc + digit_value d"
    using digit_value_nonneg [of d] by simp
  with Cons show ?case by simp
qed

text \<open>On a non-empty string of digits whose value fits an \<open>int\<close>, \<open>stoi\<close> reads the value.\<close>

lemma stoi_digits:
  assumes "ds \<noteq> []" and "\<forall>c \<in> set ds. isdigit c" and "decimal_value ds < 2 ^ 31"
  shows "stoi ds = Inr (word_of_int (decimal_value ds))"
proof -
  from assms(1) obtain d rest where ds: "ds = d # rest" by (cases ds) auto
  with assms(2) have d: "isdigit d" by simp
  have drop: "dropWhile isspace ds = ds"
    using ds d isdigit_not_space by simp
  have take: "takeWhile isdigit ds = ds"
    using assms(2) by (simp add: takeWhile_eq_all_conv)
  have nonneg: "0 \<le> decimal_value ds"
    unfolding decimal_value_def using assms(2) by (intro foldl_digits_nonneg) simp_all
  have s2: "(case ds of [] \<Rightarrow> []
             | c # rest \<Rightarrow> if c = CHR ''-'' \<or> c = CHR ''+'' then rest else ds) = ds"
    using ds d isdigit_not_sign [of d] by simp
  have neg: "(case ds of [] \<Rightarrow> False | c # x \<Rightarrow> c = CHR ''-'') = False"
    using ds d isdigit_not_sign [of d] by simp
  show ?thesis
    unfolding stoi_def Let_def drop s2 neg take
    using assms(1,3) nonneg by simp
qed

lemma stoi_examples:
  "stoi ''2'' = Inr 2" "stoi '' -17abc'' = Inr (- 17)" "stoi ''SSD'' = Inl invalid_argument"
  "stoi ''2147483648'' = Inl out_of_range"
  by (simp_all add: stoi_def isspace_def isdigit_def decimal_value_def digit_value_def)

text \<open>
  Claim C10. When the \<open>device_type\<close> pointer is null, the converting constructor of
  \<open>DeviceInfo\<close> yields \<open>DeviceType::Unknown\<close>, the file system string (empty when that
  pointer is null) and the four numbers unchanged. When \<open>device_type\<close> points to a string,
  the constructor passes it to \<open>std::stoi\<close>: it throws what \<open>std::stoi\<close> throws, and
  otherwise the device type is the \<open>int\<close> read, cast to the enumeration; for a string of
  decimal digits that is the number the digits denote.
\<close>

theorem DeviceInfo_of_conversion:
  "(c_device_type c_info = None \<longrightarrow>
      DeviceInfo_of c_info =
        Inr \<lparr>device_type = Unknown,
             filesystem = (case c_filesystem c_info of Some f \<Rightarrow> f | None \<Rightarrow> []),
             total_space = c_total_space c_info,
             available_space = c_available_space c_info,
             read_speed_mbps = c_read_speed_mbps c_info,
             write_speed_mbps = c_write_speed_mbps c_info\<rparr>) \<and>
   (\<forall>s. c_device_type c_info = Some s \<longrightarrow>
      DeviceInfo_of c_info =
        (case stoi s of
           Inl e \<Rightarrow> Inl e
         | Inr n \<Rightarrow>
             Inr \<lparr>device_type = DeviceType n,
                  filesystem = (case c_filesystem c_info of Some f \<Rightarrow> f | None \<Rightarrow> []),
                  total_space = c_total_space c_info,
                  available_space = c_available_space c_info,
                  read_speed_mbps = c_read_speed_mbps c_info,
                  write_speed_mbps = c_write_speed_mbps c_info\<rparr>)) \<and>
   (\<forall>ds. c_device_type c_info = Some ds \<and> ds \<noteq> [] \<and> (\<forall>c \<in> set ds. isdigit c)
          \<and> decimal_value ds < 2 ^ 31 \<longrightarrow>
      (\<exists>info. DeviceInfo_of c_info = Inr info \<and>
              device_type info = DeviceType (word_of_int (decimal_value ds))))"
proof -
  have "\<exists>info. DeviceInfo_of c_info = Inr info \<and>
              device_type info = DeviceType (word_of_int (decimal_value ds))"
    if "c_device_type c_info = Some ds" "ds \<noteq> []" "\<forall>c \<in> set ds. isdigit c"
      "decimal_value ds < 2 ^ 31" for ds
    using that stoi_digits [of ds] by (simp add: DeviceInfo_of_def)
  then show ?thesis by (simp add: DeviceInfo_of_def Unknown_def)
qed

theorem DeviceInfo_of_conversion_witness:
  "c_device_type (example_device_info None None) = None \<and>
   DeviceInfo_of (example_device_info None None) =
     Inr \<lparr>device_type = Unknown, filesystem = [], total_space = 1000,
          available_space = 400, read_speed_mbps = 500, write_speed_mbps = 450\<rparr> \<and>
   c_device_type (example_device_info (Some ''2'') (Some ''ext4'')) = Some ''2'' \<and>
   stoi ''2'' = Inr 2 \<and>
   DeviceInfo_of (example_device_info (Some ''2'') (Some ''ext4'')) =
     Inr \<lparr>device_type = Ssd, filesystem = ''ext4'', total_space = 1000,
          available_space = 400, read_speed_mbps = 500, write_speed_mbps = 450\<rparr> \<and>
   c_device_type (example_device_info (Some ''SSD'') None) = Some ''SSD'' \<and>
   DeviceInfo_of (example_device_info (Some ''SSD'') None) = Inl invalid_argument"
proof -
  have dev: "c_device_type (example_device_info d f) = d" for d f
    by (simp add: example_device_info_def)
  from DeviceInfo_of_conversion [of "example_device_info None None"]
  have a: "DeviceInfo_of (example_device_info None None) =
     Inr \<lparr>device_type = Unknown, filesystem = [], total_space = 1000,
          available_space = 400, read_speed_mbps = 500, write_speed_mbps = 450\<rparr>"
    by (simp add: example_device_info_def)
  from DeviceInfo_of_conversion [of "example_device_info (Some ''2'') (Some ''ext4'')"]
  have b: "DeviceInfo_of (example_device_info (Some ''2'') (Some ''ext4'')) =
     Inr \<lparr>device_type = Ssd, filesystem = ''ext4'', total_space = 1000,
          available_space = 400, read_speed_mbps = 500, write_speed_mbps = 450\<rparr>"
    by (simp add: example_device_info_def stoi_examples Ssd_def)
  from DeviceInfo_of_conversion [of "example_device_info (Some ''SSD'') None"]
  have c: "DeviceInfo_of (example_device_info (Some ''SSD'') None) = Inl invalid_argument"
    by (simp add: example_device_info_def stoi_examples)
  from a b c show ?thesis by (simp add: dev stoi_examples)
qed

subsection \<open>The error taxonomy\<close>

lemma enumerators_all: "set error_code_enumerators = UNIV"
proof -
  have "e \<in> set error_code_enumerators" for e
    by (cases e) (simp_all add: error_code_enumerators_def)
  then show ?thesis by blast
qed

lemma enumerator_values:
  "map error_code_value error_code_enumerators = [0, 1, 2, 3, 4, 5, 6, 7, 8, 9, 10, 11, 12]"
  by (simp add: error_code_enumerators_def)

lemma range_error_code_value:
  "range error_code_value = {0, 1, 2, 3, 4, 5, 6, 7, 8, 9, 10, 11, 12}"
proof -
  have "range error_code_value = set (map error_code_value error_code_enumerators)"
    by (simp add: enumerators_all)
  then show ?thesis by (simp add: enumerator_values)
qed

lemma new_Library_code:
  assumes "fst (new_Library lib t) = Inl ex"
  shows "error_code ex = error_code_value FERROCP_ERROR_GENERIC"
  using assms by (auto simp: new_Library_def error_code_def new_Exception_def split: if_splits)

lemma new_Engine_code:
  assumes "fst (new_Engine lib t) = Inl ex"
  shows "error_code ex = error_code_value FERROCP_ERROR_GENERIC"
  using assms
  by (auto simp: new_Engine_def Let_def error_code_def new_Exception_def split: if_splits)

lemma join_paths_code:
  assumes "fst (join_paths lib path1 path2 t) = Inl ex"
  shows "error_code ex = error_code_value FERROCP_ERROR_GENERIC"
  using assms
  by (auto simp: join_paths_def Let_def error_code_def new_Exception_def split: option.splits)

lemma normalize_path_code:
  assumes "fst (normalize_path lib path t) = Inl ex"
  shows "error_code ex = error_code_value FERROCP_ERROR_GENERIC"
  using assms
  by (auto simp: normalize_path_def Let_def error_code_def new_Exception_def
      split: option.splits)

lemma get_device_info_code:
  assumes "fst (get_device_info lib path t) = Inl (Thrown ex)"
  shows "error_code ex = fst (ferrocp_get_device_info lib t path)"
  using assms
  by (auto simp: get_device_info_def Let_def error_code_def new_Exception_def
      split: prod.splits if_splits sum.splits)

text \<open>
  Claim C5. The enumeration \<open>ferrocp_error_code_t\<close> has exactly thirteen enumerators,
  success and the twelve kinds of error, with the distinct codes 0 to 12 in the order of
  the claim. The exceptions that the wrapper raises by itself carry the code of an
  enumerator; a code that comes from a C function is passed on unchanged, so for a
  library that returns codes of the taxonomy only, every code that an exception of the
  wrapper carries is one of the thirteen.
\<close>

theorem error_taxonomy_closed:
  "set error_code_enumerators = UNIV \<and>
   error_code_enumerators =
     [FERROCP_SUCCESS, FERROCP_ERROR_GENERIC, FERROCP_ERROR_FILE_NOT_FOUND,
      FERROCP_ERROR_PERMISSION_DENIED, FERROCP_ERROR_INSUFFICIENT_SPACE,
      FERROCP_ERROR_INVALID_PATH, FERROCP_ERROR_NETWORK, FERROCP_ERROR_COMPRESSION,
      FERROCP_ERROR_VERIFICATION, FERROCP_ERROR_CANCELLED, FERROCP_ERROR_INVALID_ARGUMENT,
      FERROCP_ERROR_OUT_OF_MEMORY, FERROCP_ERROR_TIMEOUT] \<and>
   map error_code_value error_code_enumerators = [0, 1, 2, 3, 4, 5, 6, 7, 8, 9, 10, 11, 12] \<and>
   distinct (map error_code_value error_code_enumerators) \<and>
   (\<forall>ex. fst (new_Library lib t) = Inl ex \<longrightarrow> error_code ex \<in> range error_code_value) \<and>
   (\<forall>ex. fst (new_Engine lib t) = Inl ex \<longrightarrow> error_code ex \<in> range error_code_value) \<and>
   (\<forall>ex. fst (join_paths lib path1 path2 t) = Inl ex
      \<longrightarrow> error_code ex \<in> range error_code_value) \<and>
   (\<forall>ex. fst (normalize_path lib path t) = Inl ex
      \<longrightarrow> error_code ex \<in> range error_code_value) \<and>
   (closed_taxonomy lib \<longrightarrow>
      (\<forall>ex. fst (Engine_copy lib this request t) = Inl ex
         \<longrightarrow> error_code ex \<in> range error_code_value) \<and>
      (\<forall>ex. fst (Engine_copy_with_progress lib this request progress_callback
                   error_callback (t, u)) = Inl ex
         \<longrightarrow> error_code ex \<in> range error_code_value) \<and>
      (\<forall>ex. fst (get_device_info lib path t) = Inl (Thrown ex)
         \<longrightarrow> error_code ex \<in> range error_code_value))"
proof -
  have generic: "error_code_value FERROCP_ERROR_GENERIC \<in> range error_code_value"
    by (rule rangeI)
  have copy: "error_code ex \<in> range error_code_value"
    if "closed_taxonomy lib" "fst (Engine_copy lib this request t) = Inl ex" for ex
    using that Engine_copy_code [OF that(2)] by (simp add: closed_taxonomy_def)
  have info: "error_code ex \<in> range error_code_value"
    if "closed_taxonomy lib" "fst (get_device_info lib path t) = Inl (Thrown ex)" for ex
    using that get_device_info_code [OF that(2)] by (simp add: closed_taxonomy_def)
  have "distinct (map error_code_value error_code_enumerators)"
    by (simp add: enumerator_values)
  moreover have "error_code_enumerators =
     [FERROCP_SUCCESS, FERROCP_ERROR_GENERIC, FERROCP_ERROR_FILE_NOT_FOUND,
      FERROCP_ERROR_PERMISSION_DENIED, FERROCP_ERROR_INSUFFICIENT_SPACE,
      FERROCP_ERROR_INVALID_PATH, FERROCP_ERROR_NETWORK, FERROCP_ERROR_COMPRESSION,
      FERROCP_ERROR_VERIFICATION, FERROCP_ERROR_CANCELLED, FERROCP_ERROR_INVALID_ARGUMENT,
      FERROCP_ERROR_OUT_OF_MEMORY, FERROCP_ERROR_TIMEOUT]"
    by (simp add: error_code_enumerators_def)
  ultimately show ?thesis
    using generic copy info
    by (simp add: enumerators_all enumerator_values new_Library_code new_Engine_code
        join_paths_code normalize_path_code copy_with_progress_eq)
qed

theorem error_taxonomy_closed_witness:
  "closed_taxonomy (stub_library 0 1 6 None) \<and>
   fst (Engine_copy (stub_library 0 1 6 None) \<lparr>m_handle = 1\<rparr> (new_CopyRequest ''a'' ''b'') [])
     = Inl \<lparr>dynamic_class = Exception, what = ''Unknown error'', m_error_code = 6\<rparr> \<and>
   error_code \<lparr>dynamic_class = Exception, what = ''Unknown error'', m_error_code = 6\<rparr>
     \<in> range error_code_value"
proof -
  have closed: "closed_taxonomy (stub_library 0 1 6 None)"
    by (simp add: closed_taxonomy_def stub_library_def range_error_code_value)
  have thrown: "fst (Engine_copy (stub_library 0 1 6 None) \<lparr>m_handle = 1\<rparr>
                       (new_CopyRequest ''a'' ''b'') [])
     = Inl \<lparr>dynamic_class = Exception, what = ''Unknown error'', m_error_code = 6\<rparr>"
    by (simp add: stub_library_def Engine_copy_def thrown_cases)
  have "error_code ex \<in> range error_code_value"
    if "fst (Engine_copy (stub_library 0 1 6 None) \<lparr>m_handle = 1\<rparr>
               (new_CopyRequest ''a'' ''b'') []) = Inl ex" for ex
    using error_taxonomy_closed [where lib = "stub_library 0 1 6 None" and t = "[]"
        and this = "\<lparr>m_handle = 1\<rparr>" and request = "new_CopyRequest ''a'' ''b''"
        and ?path1.0 = "[]" and ?path2.0 = "[]" and path = "[]"
        and progress_callback = None and error_callback = None and u = "()"]
      closed that
    by blast
  with closed thrown show ?thesis by blast
qed

section \<open>Properties of the copy operation\<close>

lemma map_update_unchanged:
  assumes "f g = f (fs ! i)"
  shows "map f (fs[i := g]) = map f fs"
proof (cases "i < length fs")
  case True
  then have "map f (fs[i := g]) = (map f fs)[i := map f fs ! i]"
    using assms by (simp add: map_update)
  then show ?thesis by simp
next
  case False
  then have "fs[i := g] = fs" by (intro list_update_beyond) simp
  then show ?thesis by simp
qed










lemma sizes_event_step:
  "map file_sizes (op_files (op_event_step e op)) = map file_sizes (op_files op)"
  by (cases e) (simp_all add: map_update_unchanged file_sizes_def)

lemma sizes_step: "map file_sizes (op_files (op_step e op)) = map file_sizes (op_files op)"
  by (simp add: op_step_def sizes_event_step)

lemma total_by_sizes: "total_bytes op = sum_list (map fst (map file_sizes (op_files op)))"
  by (simp add: total_bytes_def file_sizes_def comp_def)

lemma total_step: "total_bytes (op_step e op) = total_bytes op"
  by (simp add: total_by_sizes sizes_step)














lemma efficiency_range:
  "0 \<le> efficiency_percent_of rate theoretical_rate \<and>
   efficiency_percent_of rate theoretical_rate \<le> 100"
  by (simp add: efficiency_percent_of_def)

lemma efficiency_saturated:
  assumes "0 < theoretical_rate" and "theoretical_rate \<le> rate"
  shows "efficiency_percent_of rate theoretical_rate = 100"
proof -
  from assms have "1 \<le> rate / theoretical_rate" by simp
  then show ?thesis by (simp add: efficiency_percent_of_def)
qed



text \<open>
  Claim C3. The statistics that the operation aggregates when it completes, converted by
  the constructor \<open>CopyStats(const ferrocp_stats_t&)\<close>, have an efficiency percentage
  between 0 and 100; when the observed rate reaches or exceeds a positive theoretical rate
  the value is 100. The statistics that \<open>Engine::copy\<close> itself returns have the
  efficiency percentage 0, which lies in the interval as well.
\<close>

theorem efficiency_percent_clamped:
  "0 \<le> efficiency_percent (CopyStats_of (aggregate_stats op elapsed_ms rate theoretical_rate)) \<and>
   efficiency_percent (CopyStats_of (aggregate_stats op elapsed_ms rate theoretical_rate)) \<le> 100 \<and>
   (0 < theoretical_rate \<and> theoretical_rate \<le> rate \<longrightarrow>
      efficiency_percent (CopyStats_of (aggregate_stats op elapsed_ms rate theoretical_rate))
        = 100) \<and>
   (\<forall>stats. fst (Engine_copy lib this request t) = Inr stats \<longrightarrow>
      0 \<le> efficiency_percent stats \<and> efficiency_percent stats \<le> 100)"
proof -
  have "0 \<le> efficiency_percent stats \<and> efficiency_percent stats \<le> 100"
    if "fst (Engine_copy lib this request t) = Inr stats" for stats
    using Engine_copy_success [OF that] by (simp add: new_CopyStats_def)
  then show ?thesis
    by (simp add: CopyStats_of_def aggregate_stats_def efficiency_range efficiency_saturated)
qed

theorem efficiency_percent_clamped_witness:
  "(0::real) < 500 \<and> (500::real) \<le> 600 \<and>
   efficiency_percent
     (CopyStats_of (aggregate_stats (new_CopyOperation scenario_files True False 8388608) 10 600 500))
     = 100 \<and>
   fst (Engine_copy (stub_library 0 1 0 None) \<lparr>m_handle = 1\<rparr> scenario_request [])
     = Inr new_CopyStats \<and>
   0 \<le> efficiency_percent new_CopyStats \<and> efficiency_percent new_CopyStats \<le> 100"
proof -
  have ok: "fst (Engine_copy (stub_library 0 1 0 None) \<lparr>m_handle = 1\<rparr> scenario_request [])
     = Inr new_CopyStats"
    by (simp add: stub_library_def Engine_copy_def)
  from efficiency_percent_clamped [of "new_CopyOperation scenario_files True False 8388608" 10 600 500
      "stub_library 0 1 0 None" "\<lparr>m_handle = 1\<rparr>" scenario_request "[]"] ok
  show ?thesis by simp
qed




end
